theory Spec2Isabelle
  imports Main
begin

section \<open>Data model of \<open>src/webrtc/call.ts\<close>\<close>

datatype CallState =
  Fledgling | InviteSent | WaitLocalMedia | CreateOffer | CreateAnswer
  | Connecting | Connected | Ringing | Ended

datatype CallType = Voice | Video

datatype CallDirection = Inbound | Outbound

datatype CallParty = Local | Remote

text \<open>\<open>CallErrorCode\<close>; the two members whose names are also call states or events carry
  the prefix \<open>Err\<close>.\<close>

datatype CallErrorCode =
  UserHangup | LocalOfferFailed | NoUserMedia | UnknownDevices | SendInvite
  | ErrCreateAnswer | SendAnswer | SetRemoteDescription | SetLocalDescription
  | AnsweredElsewhere | IceFailed | InviteTimeout | ErrReplaced | SignallingFailed

fun code_str :: "CallErrorCode \<Rightarrow> string" where
  "code_str UserHangup = ''user_hangup''"
| "code_str LocalOfferFailed = ''local_offer_failed''"
| "code_str NoUserMedia = ''no_user_media''"
| "code_str UnknownDevices = ''unknown_devices''"
| "code_str SendInvite = ''send_invite''"
| "code_str ErrCreateAnswer = ''create_answer''"
| "code_str SendAnswer = ''send_answer''"
| "code_str SetRemoteDescription = ''set_remote_description''"
| "code_str SetLocalDescription = ''set_local_description''"
| "code_str AnsweredElsewhere = ''answered_elsewhere''"
| "code_str IceFailed = ''ice_failed''"
| "code_str InviteTimeout = ''invite_timeout''"
| "code_str ErrReplaced = ''replaced''"
| "code_str SignallingFailed = ''signalling_timeout''"

definition VOIP_PROTO_VERSION :: int where
  "VOIP_PROTO_VERSION = 0"

definition CALL_TIMEOUT_MS :: int where
  "CALL_TIMEOUT_MS = 60000"

text \<open>A JavaScript value that is \<open>undefined\<close>, \<open>null\<close> or a string: the type of
  \<open>opponentPartyId\<close> and of the \<open>party_id\<close> and \<open>selected_party_id\<close> keys.\<close>

datatype jsv = Undefined | Null | Str string

text \<open>\<open>v || null\<close>: \<open>undefined\<close>, \<open>null\<close> and the empty string are falsy.\<close>

fun or_null :: "jsv \<Rightarrow> jsv" where
  "or_null (Str s) = (if s = [] then Null else Str s)"
| "or_null _ = Null"

text \<open>A session description; an absent \<open>sdp\<close> or \<open>type\<close> is the empty string (both falsy).\<close>

record desc =
  sdp :: string
  dtype :: string

text \<open>An ICE candidate; \<open>None\<close> stands for a \<open>null\<close> or \<open>undefined\<close> member.\<close>

record cand =
  candidate :: string
  sdpMid :: "string option"
  sdpMLineIndex :: "nat option"

record track =
  kind :: string
  enabled :: bool
  stopped :: bool

type_synonym stream = "track list"

text \<open>The numbers the call computes with are counts of milliseconds: integers, held by
  JavaScript as doubles. A double has a significand of 53 bits, so the difference of two
  such numbers is their exact difference rounded to the nearest double, ties to the even
  significand; up to \<open>2 ^ 53\<close> in magnitude every integer is a double. Magnitudes from
  \<open>2 ^ 1024\<close> on, which JavaScript takes to \<open>Infinity\<close>, are outside this model.\<close>

function bit_length :: "int \<Rightarrow> nat" where
  "bit_length n = (if n \<le> 0 then 0 else Suc (bit_length (n div 2)))"
  by pat_completeness auto
termination
  by (relation "measure nat") auto

definition js_round :: "int \<Rightarrow> int" where
  "js_round x =
     (let n = \<bar>x\<bar>
      in if n \<le> 2 ^ 53 then x
         else
           let q = 2 ^ (bit_length n - 53);
               lo = n mod q;
               hi = n - lo;
               r = (if 2 * lo < q then hi
                    else if q < 2 * lo then hi + q
                    else if even (hi div q) then hi else hi + q)
           in if x < 0 then - r else r)"

definition js_minus :: "int \<Rightarrow> int \<Rightarrow> int" where
  "js_minus a b = js_round (a - b)"

text \<open>The content of an inbound \<open>m.call.*\<close> event (\<open>event.getContent()\<close>); \<open>msg_lifetime\<close> is
  the \<open>lifetime\<close> of an invite in ms.\<close>

record content =
  msg_party_id :: jsv
  msg_version :: "int option"
  msg_offer :: "desc option"
  msg_answer :: "desc option"
  msg_description :: "desc option"
  msg_candidates :: "cand list option"
  msg_lifetime :: int
  msg_selected_party_id :: jsv
  msg_reason :: string

text \<open>The content of an outbound event: an object as its list of properties, in
  insertion order.\<close>

datatype jval = JNum int | JStr string | JId jsv | JDesc "desc option" | JCands "cand list"

type_synonym obj = "(string \<times> jval) list"

fun obj_set :: "string \<Rightarrow> jval \<Rightarrow> obj \<Rightarrow> obj" where
  "obj_set k v [] = [(k, v)]"
| "obj_set k v ((k', v') # r) = (if k = k' then (k, v) # r else (k', v') # obj_set k v r)"

text \<open>\<open>Object.assign({}, a, b)\<close>.\<close>

definition obj_assign :: "obj \<Rightarrow> obj \<Rightarrow> obj" where
  "obj_assign a b = foldl (\<lambda>ob kv. obj_set (fst kv) (snd kv) ob) (foldl (\<lambda>ob kv. obj_set (fst kv) (snd kv) ob) [] a) b"

text \<open>The peer connection as the call sees it: the attributes the call reads, and the
  log of the methods the call has invoked on it.\<close>

datatype pc_call =
  PcSetRemoteDescription "desc option"
  | PcSetLocalDescription "desc option"
  | PcCreateOffer
  | PcCreateAnswer
  | PcAddIceCandidate cand
  | PcAddStream stream
  | PcClose

record pc =
  signalingState :: string
  iceGatheringState :: string
  iceConnectionState :: string
  localDescription :: "desc option"
  remoteStreams :: "stream list"
  pc_log :: "pc_call list"

datatype timer_kind = TRing | TInvite | TFlush | TGatherOffer | TGatherAnswer

text \<open>A pending \<open>setTimeout\<close>: its handle, its callback and its delay in ms.\<close>

type_synonym timer = "nat \<times> timer_kind \<times> int"

datatype emitted =
  EvState CallState CallState
  | EvHangup
  | EvError CallErrorCode
  | EvReplaced string
  | EvHoldUnhold bool

text \<open>The \<open>MatrixCall\<close> object. The fields \<open>sent\<close>, \<open>cancelled\<close>, \<open>timers\<close>,
  \<open>nextTimer\<close> and \<open>emitted\<close> record the object's effects on its collaborators: the
  events handed to \<open>client.sendEvent\<close>, the calls of \<open>client.cancelPendingEvent\<close>, the
  pending timers, and the events emitted to listeners. \<open>successor\<close> holds the call id of
  the replacing call.\<close>

record call =
  roomId :: string
  callType :: "CallType option"
  callId :: string
  state :: CallState
  hangupParty :: "CallParty option"
  hangupReason :: string
  direction :: "CallDirection option"
  ourPartyId :: string
  candidateSendQueue :: "cand list"
  candidateSendTries :: nat
  sentEndOfCandidates :: bool
  peerConn :: "pc option"
  screenSharingStream :: "stream option"
  remoteStream :: "stream option"
  localAVStream :: "stream option"
  inviteOrAnswerSent :: bool
  waitForLocalAVStream :: bool
  msg :: "content option"
  successor :: "string option"
  opponentVersion :: "int option"
  opponentPartyId :: jsv
  inviteTimeout :: "nat option"
  remoteOnHold :: bool
  micMuted :: bool
  vidMuted :: bool
  makingOffer :: bool
  ignoreOffer :: bool
  sent :: "(string \<times> obj) list"
  cancelled :: nat
  timers :: "timer list"
  nextTimer :: nat
  emitted :: "emitted list"

section \<open>The methods of \<open>MatrixCall\<close>\<close>

text \<open>The constructor, for a client whose device id is \<open>deviceId\<close>.\<close>

definition MatrixCall :: "string \<Rightarrow> string \<Rightarrow> string \<Rightarrow> call" where
  "MatrixCall room deviceId cid =
     \<lparr> roomId = room, callType = None, callId = cid, state = Fledgling,
       hangupParty = None, hangupReason = [], direction = None, ourPartyId = deviceId,
       candidateSendQueue = [], candidateSendTries = 0, sentEndOfCandidates = False,
       peerConn = None, screenSharingStream = None, remoteStream = None,
       localAVStream = None, inviteOrAnswerSent = False, waitForLocalAVStream = False,
       msg = None, successor = None, opponentVersion = None, opponentPartyId = Undefined,
       inviteTimeout = None, remoteOnHold = False, micMuted = False, vidMuted = False,
       makingOffer = False, ignoreOffer = False,
       sent = [], cancelled = 0, timers = [], nextTimer = 0, emitted = [] \<rparr>"

definition emit :: "emitted \<Rightarrow> call \<Rightarrow> call" where
  "emit e c = c\<lparr>emitted := emitted c @ [e]\<rparr>"

definition setTimeout :: "timer_kind \<Rightarrow> int \<Rightarrow> call \<Rightarrow> call" where
  "setTimeout k d c =
     c\<lparr>timers := timers c @ [(nextTimer c, k, d)], nextTimer := Suc (nextTimer c)\<rparr>"

definition clearTimeout :: "nat \<Rightarrow> call \<Rightarrow> call" where
  "clearTimeout h c = c\<lparr>timers := filter (\<lambda>t. fst t \<noteq> h) (timers c)\<rparr>"

definition setState :: "CallState \<Rightarrow> call \<Rightarrow> call" where
  "setState s c = emit (EvState s (state c)) (c\<lparr>state := s\<rparr>)"

definition callHasEnded :: "call \<Rightarrow> bool" where
  "callHasEnded c = (state c = Ended)"

definition stop_tracks :: "stream \<Rightarrow> stream" where
  "stop_tracks ts = map (\<lambda>t. t\<lparr>stopped := True\<rparr>) ts"

definition stopAllMedia :: "call \<Rightarrow> call" where
  "stopAllMedia c =
     c\<lparr>localAVStream := map_option stop_tracks (localAVStream c),
       screenSharingStream := map_option stop_tracks (screenSharingStream c),
       remoteStream := map_option stop_tracks (remoteStream c)\<rparr>"

definition pc_invoke :: "pc_call \<Rightarrow> pc \<Rightarrow> pc" where
  "pc_invoke x p = p\<lparr>pc_log := pc_log p @ [x]\<rparr>"

text \<open>\<open>RTCPeerConnection.close()\<close> leaves the signaling state \<open>closed\<close>.\<close>

definition pc_close :: "pc \<Rightarrow> pc" where
  "pc_close p = pc_invoke PcClose (p\<lparr>signalingState := ''closed''\<rparr>)"

definition terminate :: "CallParty \<Rightarrow> string \<Rightarrow> bool \<Rightarrow> call \<Rightarrow> call" where
  "terminate party reason shouldEmit c =
     (if callHasEnded c then c
      else
        let c1 = (case inviteTimeout c of
                    Some h \<Rightarrow> (clearTimeout h c)\<lparr>inviteTimeout := None\<rparr>
                  | None \<Rightarrow> c);
            c2 = c1\<lparr>hangupParty := Some party, hangupReason := reason\<rparr>;
            c3 = stopAllMedia (setState Ended c2);
            c4 = (case peerConn c3 of
                    Some p \<Rightarrow>
                      if signalingState p \<noteq> ''closed''
                      then c3\<lparr>peerConn := Some (pc_close p)\<rparr> else c3
                  | None \<Rightarrow> c3)
        in if shouldEmit then emit EvHangup c4 else c4)"

definition sendVoipEvent :: "string \<Rightarrow> obj \<Rightarrow> call \<Rightarrow> call" where
  "sendVoipEvent eventType cont c =
     c\<lparr>sent := sent c @
        [(eventType,
          obj_assign cont
            [(''version'', JNum VOIP_PROTO_VERSION),
             (''call_id'', JStr (callId c)),
             (''party_id'', JStr (ourPartyId c))])]\<rparr>"

definition hangup :: "CallErrorCode \<Rightarrow> bool \<Rightarrow> call \<Rightarrow> call" where
  "hangup reason suppressEvent c =
     (if callHasEnded c then c
      else
        let c1 = terminate Local (code_str reason) (\<not> suppressEvent) c;
            cont = (if reason \<noteq> UserHangup then [(''reason'', JStr (code_str reason))] else [])
        in sendVoipEvent ''m.call.hangup'' [] c1)"

subsection \<open>The candidate queue\<close>

text \<open>\<open>sendCandidateQueue\<close> up to the call of \<open>sendVoipEvent\<close>; the two callbacks of the
  returned promise follow. The rejection callback closes over \<open>cands\<close>, the batch taken
  by the flush that failed.\<close>

definition sendCandidateQueue :: "call \<Rightarrow> call" where
  "sendCandidateQueue c =
     (if candidateSendQueue c = [] then c
      else
        let cands = candidateSendQueue c;
            c1 = c\<lparr>candidateSendQueue := [],
                   candidateSendTries := Suc (candidateSendTries c)\<rparr>
        in sendVoipEvent ''m.call.candidates'' [(''candidates'', JCands cands)] c1)"

definition sendCandidateQueue_sent :: "call \<Rightarrow> call" where
  "sendCandidateQueue_sent c = sendCandidateQueue (c\<lparr>candidateSendTries := 0\<rparr>)"

text \<open>The loop \<open>for (i = 0; i < cands.length; i++) queue.push(cands[i])\<close>.\<close>

fun push_all :: "cand list \<Rightarrow> cand list \<Rightarrow> cand list" where
  "push_all q [] = q"
| "push_all q (x # xs) = push_all (q @ [x]) xs"

definition sendCandidateQueue_failed :: "cand list \<Rightarrow> call \<Rightarrow> call" where
  "sendCandidateQueue_failed cands c =
     (let c1 = c\<lparr>candidateSendQueue := push_all (candidateSendQueue c) cands\<rparr>
      in if candidateSendTries c1 > 5 then c1\<lparr>candidateSendTries := 0\<rparr>
         else
           let delayMs = 500 * 2 ^ candidateSendTries c1;
               c2 = c1\<lparr>candidateSendTries := Suc (candidateSendTries c1)\<rparr>
           in setTimeout TFlush delayMs c2)"

definition queueCandidate :: "cand \<Rightarrow> call \<Rightarrow> call" where
  "queueCandidate x c =
     (let c1 = c\<lparr>candidateSendQueue := candidateSendQueue c @ [x]\<rparr>
      in if state c1 = Ringing \<or> \<not> inviteOrAnswerSent c1 then c1
         else
           let delay = (if direction c1 = Some Inbound then 500 else 2000)
           in if candidateSendTries c1 = 0 then setTimeout TFlush delay c1 else c1)"

text \<open>\<open>gotLocalIceCandidate\<close>; the argument is \<open>event.candidate\<close>.\<close>

definition gotLocalIceCandidate :: "cand option \<Rightarrow> call \<Rightarrow> call" where
  "gotLocalIceCandidate ec c =
     (case ec of
        None \<Rightarrow> c
      | Some x \<Rightarrow>
          if callHasEnded c then c
          else if candidate x \<noteq> [] \<or> \<not> sentEndOfCandidates c
          then
            let c1 = queueCandidate x c
            in if candidate x = [] then c1\<lparr>sentEndOfCandidates := True\<rparr> else c1
          else c)"

definition onIceGatheringStateChange :: "call \<Rightarrow> call" where
  "onIceGatheringStateChange c =
     (if map_option iceGatheringState (peerConn c) = Some ''complete''
         \<and> \<not> sentEndOfCandidates c
      then (queueCandidate \<lparr>candidate = [], sdpMid = None, sdpMLineIndex = None\<rparr> c)
             \<lparr>sentEndOfCandidates := True\<rparr>
      else c)"

subsection \<open>Party ids and inbound candidates\<close>

definition partyIdMatches :: "content \<Rightarrow> call \<Rightarrow> bool" where
  "partyIdMatches m c = (or_null (msg_party_id m) = opponentPartyId c)"

text \<open>\<open>this.peerConn?.m(...)\<close>: nothing happens without a peer connection.\<close>

definition on_pc :: "pc_call \<Rightarrow> call \<Rightarrow> call" where
  "on_pc x c = c\<lparr>peerConn := map_option (pc_invoke x) (peerConn c)\<rparr>"

text \<open>The loop over the candidates of a message, with the \<open>return\<close> inside it. A
  throwing \<open>addIceCandidate\<close> is caught and only logged.\<close>

fun add_candidates :: "cand list \<Rightarrow> call \<Rightarrow> call" where
  "add_candidates [] c = c"
| "add_candidates (x # xs) c =
     (if sdpMid x = None \<and> sdpMLineIndex x = None then c
      else add_candidates xs (on_pc (PcAddIceCandidate x) c))"

definition onRemoteIceCandidatesReceived :: "content \<Rightarrow> call \<Rightarrow> call" where
  "onRemoteIceCandidatesReceived ev c =
     (if callHasEnded c then c
      else if \<not> partyIdMatches ev c then c
      else case msg_candidates ev of
             None \<Rightarrow> c
           | Some cands \<Rightarrow> add_candidates cands c)"

subsection \<open>Answering\<close>

definition getUserMediaFailed :: "call \<Rightarrow> call" where
  "getUserMediaFailed c =
     (if successor c \<noteq> None then c
      else terminate Local (code_str NoUserMedia) False (emit (EvError NoUserMedia) c))"

definition getLocalOfferFailed :: "call \<Rightarrow> call" where
  "getLocalOfferFailed c =
     terminate Local (code_str LocalOfferFailed) False (emit (EvError LocalOfferFailed) c)"

text \<open>\<open>sendAnswer\<close> up to the call of \<open>sendVoipEvent\<close>. Reading
  \<open>this.peerConn?.localDescription.sdp\<close> throws when there is a peer connection without a
  local description: the result is then \<open>None\<close>.\<close>

definition sendAnswer :: "call \<Rightarrow> call option" where
  "sendAnswer c =
     (case peerConn c of
        Some p \<Rightarrow>
          (case localDescription p of
             None \<Rightarrow> None
           | Some d \<Rightarrow>
               Some (sendVoipEvent ''m.call.answer'' [(''answer'', JDesc (Some d))]
                       (c\<lparr>candidateSendQueue := []\<rparr>)))
      | None \<Rightarrow>
          Some (sendVoipEvent ''m.call.answer''
                  [(''answer'', JDesc (Some \<lparr>sdp = [], dtype = []\<rparr>))]
                  (c\<lparr>candidateSendQueue := []\<rparr>)))"

definition sendAnswer_sent :: "call \<Rightarrow> call" where
  "sendAnswer_sent c = sendCandidateQueue (c\<lparr>inviteOrAnswerSent := True\<rparr>)"

text \<open>The \<open>catch\<close> callback of \<open>sendAnswer\<close>; the argument is \<open>error.name\<close>.\<close>

definition sendAnswer_failed :: "string \<Rightarrow> call \<Rightarrow> call" where
  "sendAnswer_failed errName c =
     (let c1 = setState Ringing c;
          c2 = c1\<lparr>cancelled := Suc (cancelled c1)\<rparr>;
          code = (if errName = ''UnknownDeviceError'' then UnknownDevices else SendAnswer)
      in emit (EvError code) c2)"

definition set_kind_enabled :: "string \<Rightarrow> bool \<Rightarrow> stream \<Rightarrow> stream" where
  "set_kind_enabled k en s = map (\<lambda>t. if kind t = k then t\<lparr>enabled := en\<rparr> else t) s"

text \<open>\<open>gotUserMediaForAnswer\<close>, one definition for each stretch between two \<open>await\<close>s.\<close>

definition gotUserMediaForAnswer :: "stream \<Rightarrow> call \<Rightarrow> call" where
  "gotUserMediaForAnswer s c =
     (if callHasEnded c then c
      else
        let s1 = set_kind_enabled ''audio'' True s;
            c1 = c\<lparr>localAVStream := Some s1\<rparr>;
            c2 = on_pc (PcAddStream s1) c1;
            c3 = setState CreateAnswer c2
        in on_pc PcCreateAnswer c3)"

definition gotUserMediaForAnswer_createFailed :: "call \<Rightarrow> call" where
  "gotUserMediaForAnswer_createFailed c = terminate Local (code_str ErrCreateAnswer) True c"

definition gotUserMediaForAnswer_created :: "desc option \<Rightarrow> call \<Rightarrow> call" where
  "gotUserMediaForAnswer_created myAnswer c = on_pc (PcSetLocalDescription myAnswer) c"

definition gotUserMediaForAnswer_localSet :: "call \<Rightarrow> call" where
  "gotUserMediaForAnswer_localSet c = setTimeout TGatherAnswer 200 (setState Connecting c)"

definition gotUserMediaForAnswer_setLocalFailed :: "call \<Rightarrow> call" where
  "gotUserMediaForAnswer_setLocalFailed c =
     terminate Local (code_str SetLocalDescription) True c"

definition gotUserMediaForAnswer_gathered :: "call \<Rightarrow> call" where
  "gotUserMediaForAnswer_gathered c =
     (case sendAnswer c of
        Some c' \<Rightarrow> c'
      | None \<Rightarrow> terminate Local (code_str SetLocalDescription) True c)"

text \<open>\<open>answer\<close> up to \<open>await mediaDevices.getUserMedia\<close>, and its two continuations.\<close>

definition answer :: "call \<Rightarrow> call" where
  "answer c =
     (if inviteOrAnswerSent c then c
      else if localAVStream c = None \<and> \<not> waitForLocalAVStream c
      then (setState WaitLocalMedia c)\<lparr>waitForLocalAVStream := True\<rparr>
      else case localAVStream c of
             Some s \<Rightarrow> gotUserMediaForAnswer s c
           | None \<Rightarrow> if waitForLocalAVStream c then setState WaitLocalMedia c else c)"

definition answer_gotUserMedia :: "stream \<Rightarrow> call \<Rightarrow> call" where
  "answer_gotUserMedia s c = gotUserMediaForAnswer s (c\<lparr>waitForLocalAVStream := False\<rparr>)"

definition answer_getUserMediaFailed :: "call \<Rightarrow> call" where
  "answer_getUserMediaFailed c = getUserMediaFailed c"

text \<open>\<open>replacedBy\<close>: what it does to this call; \<open>newCall\<close> is another object.\<close>

definition replacedBy :: "string \<Rightarrow> call \<Rightarrow> call" where
  "replacedBy newCallId c =
     hangup ErrReplaced True (emit (EvReplaced newCallId) (c\<lparr>successor := Some newCallId\<rparr>))"

text \<open>\<open>reject\<close> throws unless the call is ringing: the result is then \<open>None\<close>. The
  comparison \<open>undefined < 1\<close> is false.\<close>

definition reject :: "call \<Rightarrow> call option" where
  "reject c =
     (if state c \<noteq> Ringing then None
      else if (case opponentVersion c of Some v \<Rightarrow> v < 1 | None \<Rightarrow> False)
      then Some (hangup UserHangup True c)
      else Some (sendVoipEvent ''m.call.reject'' []
                   (terminate Local (code_str UserHangup) True c)))"

definition updateMuteStatus :: "call \<Rightarrow> call" where
  "updateMuteStatus c =
     (case localAVStream c of
        None \<Rightarrow> c
      | Some s \<Rightarrow>
          let micShouldBeMuted = micMuted c \<or> remoteOnHold c;
              s1 = set_kind_enabled ''audio'' (\<not> micShouldBeMuted) s;
              vidShouldBeMuted = vidMuted c \<or> remoteOnHold c;
              s2 = set_kind_enabled ''video'' (\<not> vidShouldBeMuted) s1
          in c\<lparr>localAVStream := Some s2\<rparr>)"

definition setLocalVideoMuted :: "bool \<Rightarrow> call \<Rightarrow> call" where
  "setLocalVideoMuted muted c = updateMuteStatus (c\<lparr>vidMuted := muted\<rparr>)"

definition setMicrophoneMuted :: "bool \<Rightarrow> call \<Rightarrow> call" where
  "setMicrophoneMuted muted c = updateMuteStatus (c\<lparr>micMuted := muted\<rparr>)"

definition setRemoteOnHold :: "bool \<Rightarrow> call \<Rightarrow> call" where
  "setRemoteOnHold onHold c =
     (if remoteOnHold c = onHold then c else updateMuteStatus (c\<lparr>remoteOnHold := onHold\<rparr>))"

definition isLocalOnHold :: "call \<Rightarrow> bool" where
  "isLocalOnHold c = (if state c \<noteq> Connected then False else True)"

subsection \<open>Placing a call\<close>

text \<open>A new \<open>RTCPeerConnection\<close>.\<close>

definition createPeerConnection :: pc where
  "createPeerConnection =
     \<lparr> signalingState = ''stable'', iceGatheringState = ''new'',
       iceConnectionState = ''new'', localDescription = None, remoteStreams = [],
       pc_log = [] \<rparr>"

definition gotUserMediaForInvite :: "stream \<Rightarrow> call \<Rightarrow> call" where
  "gotUserMediaForInvite s c =
     (if successor c \<noteq> None then c
      else if callHasEnded c then c
      else
        let c1 = setState CreateOffer c;
            s1 = set_kind_enabled ''audio'' True s;
            c2 = c1\<lparr>localAVStream := Some s1\<rparr>
        in c2\<lparr>peerConn := Some (pc_invoke (PcAddStream s1) createPeerConnection)\<rparr>)"

text \<open>\<open>placeCallWithConstraints\<close> up to \<open>await mediaDevices.getUserMedia\<close>; it continues
  with \<open>gotUserMediaForInvite\<close> or \<open>getUserMediaFailed\<close>.\<close>

definition placeCallWithConstraints :: "call \<Rightarrow> call" where
  "placeCallWithConstraints c = (setState WaitLocalMedia c)\<lparr>direction := Some Outbound\<rparr>"

text \<open>\<open>placeVoiceCall\<close> throws without a listener for \<open>error\<close> events.\<close>

definition placeVoiceCall :: "bool \<Rightarrow> call \<Rightarrow> call option" where
  "placeVoiceCall hasErrorListener c =
     (if \<not> hasErrorListener then None
      else Some ((placeCallWithConstraints c)\<lparr>callType := Some Voice\<rparr>))"

subsection \<open>Inbound signaling\<close>

text \<open>\<open>onAnswerReceived\<close> up to \<open>await setRemoteDescription\<close>, and its continuations.\<close>

definition onAnswerReceived :: "content \<Rightarrow> call \<Rightarrow> call" where
  "onAnswerReceived ev c =
     (if callHasEnded c then c
      else if opponentPartyId c \<noteq> Undefined then c
      else
        let c1 = c\<lparr>opponentVersion := msg_version ev,
                   opponentPartyId := or_null (msg_party_id ev)\<rparr>;
            c2 = setState Connecting c1
        in on_pc (PcSetRemoteDescription (msg_answer ev)) c2)"

definition onAnswerReceived_failed :: "call \<Rightarrow> call" where
  "onAnswerReceived_failed c = terminate Local (code_str SetRemoteDescription) False c"

definition onAnswerReceived_resolved :: "call \<Rightarrow> call" where
  "onAnswerReceived_resolved c =
     (if opponentPartyId c \<noteq> Null
      then sendVoipEvent ''m.call.select_answer''
             [(''selected_party_id'', JId (opponentPartyId c))] c
      else c)"

definition onSelectAnswerReceived :: "content \<Rightarrow> call \<Rightarrow> call" where
  "onSelectAnswerReceived ev c =
     (if direction c \<noteq> Some Inbound then c
      else
        let selectedPartyId = msg_selected_party_id ev
        in if selectedPartyId = Undefined \<or> selectedPartyId = Null then c
           else if selectedPartyId \<noteq> Str (ourPartyId c)
           then terminate Remote (code_str AnsweredElsewhere) True c
           else c)"

text \<open>\<open>onNegotiateReceived\<close> up to \<open>await setRemoteDescription\<close>.\<close>

definition onNegotiateReceived :: "content \<Rightarrow> call \<Rightarrow> call" where
  "onNegotiateReceived ev c =
     (case msg_description ev of
        None \<Rightarrow> c
      | Some d \<Rightarrow>
          if sdp d = [] \<or> dtype d = [] then c
          else
            let polite = (direction c = Some Inbound);
                offerCollision =
                  (dtype d = ''offer'' \<and>
                   (makingOffer c \<or> map_option signalingState (peerConn c) \<noteq> Some ''stable''));
                c1 = c\<lparr>ignoreOffer := (\<not> polite \<and> offerCollision)\<rparr>
            in if ignoreOffer c1 then c1
               else on_pc (PcSetRemoteDescription (Some d)) c1)"

text \<open>The end of \<open>onNegotiateReceived\<close>; \<open>prevOnHold\<close> was read before the first \<open>await\<close>.\<close>

definition hold_changed :: "bool \<Rightarrow> call \<Rightarrow> call" where
  "hold_changed prevOnHold c =
     (let nowOnHold = isLocalOnHold c
      in if prevOnHold \<noteq> nowOnHold then emit (EvHoldUnhold nowOnHold) c else c)"

definition onNegotiateReceived_remoteSet :: "desc \<Rightarrow> bool \<Rightarrow> call \<Rightarrow> call" where
  "onNegotiateReceived_remoteSet d prevOnHold c =
     (if dtype d = ''offer'' then on_pc PcCreateAnswer c else hold_changed prevOnHold c)"

definition onNegotiateReceived_created :: "desc option \<Rightarrow> call \<Rightarrow> call" where
  "onNegotiateReceived_created localDesc c = on_pc (PcSetLocalDescription localDesc) c"

definition onNegotiateReceived_localSet :: "bool \<Rightarrow> call \<Rightarrow> call" where
  "onNegotiateReceived_localSet prevOnHold c =
     hold_changed prevOnHold
       (sendVoipEvent ''m.call.negotiate''
          [(''description'', JDesc (case peerConn c of None \<Rightarrow> None | Some p \<Rightarrow> localDescription p))]
          c)"

definition onNegotiateReceived_failed :: "bool \<Rightarrow> call \<Rightarrow> call" where
  "onNegotiateReceived_failed prevOnHold c = hold_changed prevOnHold c"

definition onHangupReceived :: "content \<Rightarrow> call \<Rightarrow> call" where
  "onHangupReceived m c =
     (if \<not> partyIdMatches m c \<and> opponentPartyId c \<noteq> Undefined then c
      else terminate Remote
             (if msg_reason m \<noteq> [] then msg_reason m else code_str UserHangup) True c)"

definition onRejectReceived :: "content \<Rightarrow> call \<Rightarrow> call" where
  "onRejectReceived m c =
     (if state c = InviteSent then terminate Remote (code_str UserHangup) True c else c)"

definition onAnsweredElsewhere :: "content \<Rightarrow> call \<Rightarrow> call" where
  "onAnsweredElsewhere m c = terminate Remote (code_str AnsweredElsewhere) True c"

subsection \<open>The local offer\<close>

text \<open>\<open>gotLocalOffer\<close>, one definition for each stretch between two \<open>await\<close>s.\<close>

definition gotLocalOffer :: "desc option \<Rightarrow> call \<Rightarrow> call" where
  "gotLocalOffer description c =
     (if callHasEnded c then c else on_pc (PcSetLocalDescription description) c)"

definition gotLocalOffer_setLocalFailed :: "call \<Rightarrow> call" where
  "gotLocalOffer_setLocalFailed c = terminate Local (code_str SetLocalDescription) True c"

definition gotLocalOffer_send :: "call \<Rightarrow> call" where
  "gotLocalOffer_send c =
     (if callHasEnded c then c
      else
        let keyName = (if state c = CreateOffer then ''offer'' else ''description'');
            eventType = (if state c = CreateOffer then ''m.call.invite'' else ''m.call.negotiate'');
            cont = [(keyName, JDesc (case peerConn c of None \<Rightarrow> None | Some p \<Rightarrow> localDescription p)),
                    (''lifetime'', JNum CALL_TIMEOUT_MS)];
            c1 = c\<lparr>candidateSendQueue := []\<rparr>
        in sendVoipEvent eventType cont c1)"

definition gotLocalOffer_localSet :: "call \<Rightarrow> call" where
  "gotLocalOffer_localSet c =
     (if map_option iceGatheringState (peerConn c) = Some ''gathering''
      then setTimeout TGatherOffer 200 c
      else gotLocalOffer_send c)"

definition gotLocalOffer_sent :: "call \<Rightarrow> call" where
  "gotLocalOffer_sent c =
     (let c1 = sendCandidateQueue c
      in if state c1 = CreateOffer
         then
           let c2 = c1\<lparr>inviteOrAnswerSent := True\<rparr>;
               c3 = setState InviteSent c2
           in (setTimeout TInvite CALL_TIMEOUT_MS c3)\<lparr>inviteTimeout := Some (nextTimer c3)\<rparr>
         else c1)"

text \<open>The \<open>catch\<close> of the send in \<open>gotLocalOffer\<close>; the argument is \<open>error.name\<close>.\<close>

definition gotLocalOffer_sendFailed :: "string \<Rightarrow> call \<Rightarrow> call" where
  "gotLocalOffer_sendFailed errName c =
     (let c1 = c\<lparr>cancelled := Suc (cancelled c)\<rparr>;
          code0 = (if state c1 = CreateOffer then SendInvite else SignallingFailed);
          code = (if errName = ''UnknownDeviceError'' then UnknownDevices else code0)
      in terminate Local (code_str code) False (emit (EvError code) c1))"

text \<open>The callback of the invite timer.\<close>

definition inviteTimeout_fired :: "call \<Rightarrow> call" where
  "inviteTimeout_fired c =
     (let c1 = c\<lparr>inviteTimeout := None\<rparr>
      in if state c1 = InviteSent then hangup InviteTimeout False c1 else c1)"

definition onIceConnectionStateChanged :: "call \<Rightarrow> call" where
  "onIceConnectionStateChanged c =
     (if callHasEnded c then c
      else if map_option iceConnectionState (peerConn c) = Some ''connected''
      then setState Connected c
      else if map_option iceConnectionState (peerConn c) = Some ''failed''
      then hangup IceFailed False c
      else c)"

text \<open>\<open>onNegotiationNeeded\<close> up to \<open>await createOffer\<close>; with an offer it continues with
  \<open>gotLocalOffer\<close>, whose end runs the \<open>finally\<close> block.\<close>

definition onNegotiationNeeded :: "call \<Rightarrow> call" where
  "onNegotiationNeeded c =
     (if state c \<noteq> CreateOffer \<and> opponentVersion c = Some 0 then c
      else on_pc PcCreateOffer (c\<lparr>makingOffer := True\<rparr>))"

definition onNegotiationNeeded_failed :: "call \<Rightarrow> call" where
  "onNegotiationNeeded_failed c = (getLocalOfferFailed c)\<lparr>makingOffer := False\<rparr>"

definition onNegotiationNeeded_finally :: "call \<Rightarrow> call" where
  "onNegotiationNeeded_finally c = c\<lparr>makingOffer := False\<rparr>"

subsection \<open>Inbound invites\<close>

text \<open>\<open>initWithInvite\<close> up to \<open>await setRemoteDescription\<close>, and its continuations. The
  second argument of \<open>initWithInvite_resolved\<close> is \<open>event.getLocalAge()\<close>, \<open>None\<close> when it is
  \<open>undefined\<close> (falsy, as \<open>0\<close> is); the delay of the timer is the difference of two
  JavaScript numbers. Reading \<open>this.peerConn.getRemoteStreams()\<close> without a
  peer connection throws, and so does reading \<open>this.msg.version\<close> without \<open>msg\<close>: the call
  is then left as it is at the throw.\<close>

definition initWithInvite :: "content \<Rightarrow> call \<Rightarrow> call" where
  "initWithInvite ev c =
     c\<lparr>msg := Some ev,
       peerConn := Some (pc_invoke (PcSetRemoteDescription (msg_offer ev)) createPeerConnection)\<rparr>"

definition initWithInvite_failed :: "call \<Rightarrow> call" where
  "initWithInvite_failed c = terminate Local (code_str SetRemoteDescription) False c"

definition initWithInvite_resolved :: "int option \<Rightarrow> call \<Rightarrow> call" where
  "initWithInvite_resolved localAge c =
     (case peerConn c of
        None \<Rightarrow> c
      | Some p \<Rightarrow>
          (case remoteStreams p of
             [] \<Rightarrow> terminate Local (code_str SetRemoteDescription) False c
           | rs # _ \<Rightarrow>
               let c1 = c\<lparr>remoteStream := Some rs,
                          callType := Some (if list_ex (\<lambda>t. kind t = ''video'') rs
                                            then Video else Voice)\<rparr>;
                   c2 = (setState Ringing c1)\<lparr>direction := Some Inbound\<rparr>
               in case msg c2 of
                    None \<Rightarrow> c2
                  | Some m \<Rightarrow>
                      let c3 = c2\<lparr>opponentVersion := msg_version m,
                                 opponentPartyId := or_null (msg_party_id m)\<rparr>
                      in case localAge of
                           None \<Rightarrow> c3
                         | Some age \<Rightarrow>
                             if age \<noteq> 0
                             then setTimeout TRing (js_minus (msg_lifetime m) age) c3
                             else c3))"

text \<open>The callback of the timer set by \<open>initWithInvite\<close>.\<close>

definition ringTimeout_fired :: "call \<Rightarrow> call" where
  "ringTimeout_fired c =
     (if state c = Ringing
      then
        let c1 = c\<lparr>hangupParty := Some Remote\<rparr>;
            c2 = stopAllMedia (setState Ended c1);
            c3 = (case peerConn c2 of
                    Some p \<Rightarrow>
                      if signalingState p \<noteq> ''closed''
                      then c2\<lparr>peerConn := Some (pc_close p)\<rparr> else c2
                  | None \<Rightarrow> c2)
        in emit EvHangup c3
      else c)"

definition initWithHangup :: "content \<Rightarrow> call \<Rightarrow> call" where
  "initWithHangup ev c = setState Ended (c\<lparr>msg := Some ev\<rparr>)"

section \<open>The call as a transition system\<close>


text \<open>A pending timer fires: it leaves the pending timers and its callback runs.\<close>

definition fire_timer :: "nat \<Rightarrow> call \<Rightarrow> call" where
  "fire_timer h c =
     (case find (\<lambda>t. fst t = h) (timers c) of
        None \<Rightarrow> c
      | Some t \<Rightarrow>
          let c1 = c\<lparr>timers := filter (\<lambda>t. fst t \<noteq> h) (timers c)\<rparr>
          in case fst (snd t) of
               TRing \<Rightarrow> ringTimeout_fired c1
             | TInvite \<Rightarrow> inviteTimeout_fired c1
             | TFlush \<Rightarrow> sendCandidateQueue c1
             | TGatherOffer \<Rightarrow> gotLocalOffer_send c1
             | TGatherAnswer \<Rightarrow> gotUserMediaForAnswer_gathered c1)"

text \<open>The WebRTC stack changes the attributes of the peer connection.\<close>

definition pc_changed :: "string \<Rightarrow> string \<Rightarrow> string \<Rightarrow> desc option \<Rightarrow> stream list \<Rightarrow> call \<Rightarrow> call" where
  "pc_changed sig gath ice ld rs c =
     c\<lparr>peerConn :=
         map_option (\<lambda>p. p\<lparr>signalingState := sig, iceGatheringState := gath,
                            iceConnectionState := ice, localDescription := ld,
                            remoteStreams := rs\<rparr>) (peerConn c)\<rparr>"

text \<open>Everything that can happen to a call: a public method is invoked, an inbound event
  is dispatched, a promise the call waits for settles, a timer fires, or the peer
  connection changes.\<close>

datatype event =
  InitWithInvite content
  | InitWithInviteFailed
  | InitWithInviteResolved "int option"
  | InitWithHangup content
  | Answer
  | AnswerGotUserMedia stream
  | AnswerGetUserMediaFailed
  | AnswerCreateFailed
  | AnswerCreated "desc option"
  | AnswerLocalSet
  | AnswerSetLocalFailed
  | AnswerSent
  | AnswerSendFailed string
  | ReplacedBy string
  | Hangup CallErrorCode bool
  | Reject
  | SetLocalVideoMuted bool
  | SetMicrophoneMuted bool
  | SetRemoteOnHold bool
  | PlaceVoiceCall bool
  | GotUserMediaForInvite stream
  | GetUserMediaFailed
  | GotLocalIceCandidate "cand option"
  | IceGatheringStateChange
  | IceConnectionStateChanged
  | RemoteIceCandidatesReceived content
  | AnswerReceived content
  | AnswerReceivedFailed
  | AnswerReceivedResolved
  | SelectAnswerReceived content
  | NegotiateReceived content
  | NegotiateRemoteSet desc bool
  | NegotiateCreated "desc option"
  | NegotiateLocalSet bool
  | NegotiateFailed bool
  | HangupReceived content
  | RejectReceived content
  | AnsweredElsewhereReceived content
  | NegotiationNeeded
  | NegotiationNeededFailed
  | NegotiationNeededFinally
  | GotLocalOffer "desc option"
  | LocalOfferSetLocalFailed
  | LocalOfferLocalSet
  | LocalOfferSent
  | LocalOfferSendFailed string
  | CandidatesSent
  | CandidatesSendFailed "cand list"
  | TimerFired nat
  | PeerConnChanged string string string "desc option" "stream list"

text \<open>A method that throws leaves the call as it was.\<close>

fun step :: "event \<Rightarrow> call \<Rightarrow> call" where
  "step (InitWithInvite ev) c = initWithInvite ev c"
| "step InitWithInviteFailed c = initWithInvite_failed c"
| "step (InitWithInviteResolved age) c = initWithInvite_resolved age c"
| "step (InitWithHangup ev) c = initWithHangup ev c"
| "step Answer c = answer c"
| "step (AnswerGotUserMedia s) c = answer_gotUserMedia s c"
| "step AnswerGetUserMediaFailed c = answer_getUserMediaFailed c"
| "step AnswerCreateFailed c = gotUserMediaForAnswer_createFailed c"
| "step (AnswerCreated d) c = gotUserMediaForAnswer_created d c"
| "step AnswerLocalSet c = gotUserMediaForAnswer_localSet c"
| "step AnswerSetLocalFailed c = gotUserMediaForAnswer_setLocalFailed c"
| "step AnswerSent c = sendAnswer_sent c"
| "step (AnswerSendFailed n) c = sendAnswer_failed n c"
| "step (ReplacedBy n) c = replacedBy n c"
| "step (Hangup r s) c = hangup r s c"
| "step Reject c = (case reject c of None \<Rightarrow> c | Some c' \<Rightarrow> c')"
| "step (SetLocalVideoMuted b) c = setLocalVideoMuted b c"
| "step (SetMicrophoneMuted b) c = setMicrophoneMuted b c"
| "step (SetRemoteOnHold b) c = setRemoteOnHold b c"
| "step (PlaceVoiceCall l) c = (case placeVoiceCall l c of None \<Rightarrow> c | Some c' \<Rightarrow> c')"
| "step (GotUserMediaForInvite s) c = gotUserMediaForInvite s c"
| "step GetUserMediaFailed c = getUserMediaFailed c"
| "step (GotLocalIceCandidate x) c = gotLocalIceCandidate x c"
| "step IceGatheringStateChange c = onIceGatheringStateChange c"
| "step IceConnectionStateChanged c = onIceConnectionStateChanged c"
| "step (RemoteIceCandidatesReceived ev) c = onRemoteIceCandidatesReceived ev c"
| "step (AnswerReceived ev) c = onAnswerReceived ev c"
| "step AnswerReceivedFailed c = onAnswerReceived_failed c"
| "step AnswerReceivedResolved c = onAnswerReceived_resolved c"
| "step (SelectAnswerReceived ev) c = onSelectAnswerReceived ev c"
| "step (NegotiateReceived ev) c = onNegotiateReceived ev c"
| "step (NegotiateRemoteSet d h) c = onNegotiateReceived_remoteSet d h c"
| "step (NegotiateCreated d) c = onNegotiateReceived_created d c"
| "step (NegotiateLocalSet h) c = onNegotiateReceived_localSet h c"
| "step (NegotiateFailed h) c = onNegotiateReceived_failed h c"
| "step (HangupReceived m) c = onHangupReceived m c"
| "step (RejectReceived m) c = onRejectReceived m c"
| "step (AnsweredElsewhereReceived m) c = onAnsweredElsewhere m c"
| "step NegotiationNeeded c = onNegotiationNeeded c"
| "step NegotiationNeededFailed c = onNegotiationNeeded_failed c"
| "step NegotiationNeededFinally c = onNegotiationNeeded_finally c"
| "step (GotLocalOffer d) c = gotLocalOffer d c"
| "step LocalOfferSetLocalFailed c = gotLocalOffer_setLocalFailed c"
| "step LocalOfferLocalSet c = gotLocalOffer_localSet c"
| "step LocalOfferSent c = gotLocalOffer_sent c"
| "step (LocalOfferSendFailed n) c = gotLocalOffer_sendFailed n c"
| "step CandidatesSent c = sendCandidateQueue_sent c"
| "step (CandidatesSendFailed cands) c = sendCandidateQueue_failed cands c"
| "step (TimerFired h) c = fire_timer h c"
| "step (PeerConnChanged sig gath ice ld rs) c = pc_changed sig gath ice ld rs c"

text \<open>A run: the events of a list, one after the other.\<close>

definition run :: "event list \<Rightarrow> call \<Rightarrow> call" where
  "run es c = foldl (\<lambda>c e. step e c) c es"

section \<open>Runs used as examples\<close>

definition no_content :: content where
  "no_content =
     \<lparr> msg_party_id = Undefined, msg_version = None, msg_offer = None, msg_answer = None,
       msg_description = None, msg_candidates = None, msg_lifetime = 0,
       msg_selected_party_id = Undefined, msg_reason = [] \<rparr>"

definition remote_offer :: desc where
  "remote_offer = \<lparr>sdp = ''v=0 remote'', dtype = ''offer''\<rparr>"

definition local_offer :: desc where
  "local_offer = \<lparr>sdp = ''v=0 local'', dtype = ''offer''\<rparr>"

definition local_answer :: desc where
  "local_answer = \<lparr>sdp = ''v=0 local'', dtype = ''answer''\<rparr>"

definition audio_track :: track where
  "audio_track = \<lparr>kind = ''audio'', enabled = True, stopped = False\<rparr>"

text \<open>An invite from device \<open>D2\<close>, with a lifetime of 60 s.\<close>

definition invite_D2 :: content where
  "invite_D2 =
     no_content\<lparr>msg_party_id := Str ''D2'', msg_version := Some 0,
                msg_offer := Some remote_offer, msg_lifetime := 60000\<rparr>"

text \<open>An inbound call of device \<open>D1\<close> that rings: the invite of \<open>D2\<close> arrived with a local
  age of 1 s, and its offer brought one remote stream.\<close>

definition ringing_call :: call where
  "ringing_call =
     run [InitWithInvite invite_D2,
          PeerConnChanged ''have-remote-offer'' ''new'' ''new'' None [[audio_track]],
          InitWithInviteResolved (Some 1000)]
       (MatrixCall ''!r'' ''D1'' ''c1'')"






text \<open>The user has answered the ringing call; the answer has been handed to the transport
  and its send has not settled yet.\<close>

definition answering_call :: call where
  "answering_call =
     run [Answer, AnswerGotUserMedia [audio_track], AnswerCreated (Some local_answer),
          PeerConnChanged ''stable'' ''gathering'' ''new'' (Some local_answer) [[audio_track]],
          AnswerLocalSet, TimerFired 1]
       ringing_call"

text \<open>An outbound call of device \<open>D1\<close> that is creating its offer (\<open>makingOffer\<close> is set).\<close>

definition inviting_call :: call where
  "inviting_call =
     run [PlaceVoiceCall True, GotUserMediaForInvite [audio_track], NegotiationNeeded]
       (MatrixCall ''!r'' ''D1'' ''c1'')"

text \<open>The same call with its invite handed to the transport, and then with the invite
  sent.\<close>

definition offering_call :: call where
  "offering_call =
     run [GotLocalOffer (Some local_offer),
          PeerConnChanged ''have-local-offer'' ''complete'' ''new'' (Some local_offer) [],
          LocalOfferLocalSet]
       inviting_call"

definition invite_sent_call :: call where
  "invite_sent_call = run [LocalOfferSent, NegotiationNeededFinally] offering_call"

definition cand_a :: cand where
  "cand_a = \<lparr>candidate = ''candidate:a'', sdpMid = Some ''0'', sdpMLineIndex = Some 0\<rparr>"

definition cand_b :: cand where
  "cand_b = \<lparr>candidate = ''candidate:b'', sdpMid = Some ''0'', sdpMLineIndex = Some 0\<rparr>"

definition cand_c :: cand where
  "cand_c = \<lparr>candidate = ''candidate:c'', sdpMid = Some ''0'', sdpMLineIndex = Some 0\<rparr>"

text \<open>A candidate with neither \<open>sdpMid\<close> nor \<open>sdpMLineIndex\<close>.\<close>

definition cand_bare :: cand where
  "cand_bare = \<lparr>candidate = ''candidate:x'', sdpMid = None, sdpMLineIndex = None\<rparr>"

text \<open>The call with its invite sent and two local candidates queued.\<close>

definition queued_call :: call where
  "queued_call =
     run [GotLocalIceCandidate (Some cand_a), GotLocalIceCandidate (Some cand_b)]
       invite_sent_call"

text \<open>The call with its invite sent, one local candidate, and a transport on which every
  send of candidates fails: the call after its first, second, third and fourth failed
  flush.\<close>

definition failed_once :: call where
  "failed_once =
     run [GotLocalIceCandidate (Some cand_a), TimerFired 1, CandidatesSendFailed [cand_a]]
       invite_sent_call"

definition failed_twice :: call where
  "failed_twice = run [TimerFired 2, CandidatesSendFailed [cand_a]] failed_once"

definition failed_thrice :: call where
  "failed_thrice = run [TimerFired 3, CandidatesSendFailed [cand_a]] failed_twice"

definition failed_four_times :: call where
  "failed_four_times = run [TimerFired 4, CandidatesSendFailed [cand_a]] failed_thrice"

text \<open>The number of \<open>m.call.candidates\<close> events a call has handed to the transport, and its
  pending flushes.\<close>

definition candidates_sent :: "call \<Rightarrow> nat" where
  "candidates_sent c = length (filter (\<lambda>m. fst m = ''m.call.candidates'') (sent c))"

definition pending_flushes :: "call \<Rightarrow> timer list" where
  "pending_flushes c = filter (\<lambda>t. fst (snd t) = TFlush) (timers c)"

text \<open>Events from a device \<open>D9\<close> that is not the partner of the ringing call: a
  renegotiation offer, and a \<open>select_answer\<close> naming a third device.\<close>

definition negotiate_D9 :: content where
  "negotiate_D9 =
     no_content\<lparr>msg_party_id := Str ''D9'',
                msg_description := Some \<lparr>sdp = ''v=0 other'', dtype = ''offer''\<rparr>\<rparr>"

definition select_answer_D9 :: content where
  "select_answer_D9 =
     no_content\<lparr>msg_party_id := Str ''D9'', msg_selected_party_id := Str ''D7''\<rparr>"

text \<open>Events from the partner \<open>D2\<close>: a hangup, an answer, a renegotiation offer, and
  candidates.\<close>

definition hangup_D2 :: content where
  "hangup_D2 = no_content\<lparr>msg_party_id := Str ''D2''\<rparr>"


definition negotiate_D2 :: content where
  "negotiate_D2 =
     no_content\<lparr>msg_party_id := Str ''D2'', msg_description := Some remote_offer\<rparr>"

definition candidates_D2 :: "cand list \<Rightarrow> content" where
  "candidates_D2 cs = no_content\<lparr>msg_party_id := Str ''D2'', msg_candidates := Some cs\<rparr>"

section \<open>Termination and hanging up\<close>

lemmas terminate_defs =
  terminate_def callHasEnded_def setState_def emit_def stopAllMedia_def clearTimeout_def
  pc_close_def pc_invoke_def Let_def

lemma terminate_state: "state (terminate p r e c) = Ended"
  by (simp add: terminate_defs split: option.splits)

lemma terminate_sent: "sent (terminate p r e c) = sent c"
  by (simp add: terminate_defs split: option.splits)

lemma terminate_callId: "callId (terminate p r e c) = callId c"
  by (simp add: terminate_defs split: option.splits)

lemma terminate_ourPartyId: "ourPartyId (terminate p r e c) = ourPartyId c"
  by (simp add: terminate_defs split: option.splits)

lemma terminate_ended: "state c = Ended \<Longrightarrow> terminate p r e c = c"
  by (simp add: terminate_def callHasEnded_def)

lemma hangup_state: "state (hangup r s c) = Ended"
  by (simp add: hangup_def callHasEnded_def sendVoipEvent_def terminate_state Let_def)

lemma envelope:
  "obj_assign [] [(''version'', v), (''call_id'', x), (''party_id'', y)] =
     [(''version'', v), (''call_id'', x), (''party_id'', y)]"
  by (simp add: obj_assign_def)

text \<open>C9. Calling \<open>hangup\<close> a second time, with any reason and any \<open>suppressEvent\<close>,
  leaves the call exactly as the first invocation left it: no field of the call changes,
  so the state stays, no track is stopped, the peer connection is not touched, nothing is
  emitted and no further event is sent.\<close>

theorem hangup_idempotent: "hangup r2 s2 (hangup r1 s1 c) = hangup r1 s1 c"
  using hangup_state [of r1 s1 c] by (simp add: hangup_def [of r2 s2] callHasEnded_def)

theorem hangup_idempotent_witness:
  "state (hangup UserHangup False (MatrixCall ''!r'' ''D1'' ''c1'')) = Ended
   \<and> length (sent (hangup UserHangup False (MatrixCall ''!r'' ''D1'' ''c1''))) = 1
   \<and> hangup IceFailed True (hangup UserHangup False (MatrixCall ''!r'' ''D1'' ''c1''))
       = hangup UserHangup False (MatrixCall ''!r'' ''D1'' ''c1'')"
  using hangup_idempotent [of IceFailed True UserHangup False "MatrixCall ''!r'' ''D1'' ''c1''"]
  by (simp add: hangup_state)
     (simp add: hangup_def callHasEnded_def MatrixCall_def sendVoipEvent_def terminate_sent Let_def)

text \<open>C10. The \<open>m.call.hangup\<close> event that \<open>hangup\<close> sends on a call that has not ended
  has exactly the three properties \<open>version\<close>, \<open>call_id\<close> and \<open>party_id\<close>, whatever the
  reason is: the \<open>reason\<close> that \<open>hangup\<close> puts into \<open>content\<close> is not what it hands to
  \<open>sendVoipEvent\<close>. On a call that has ended nothing is sent.\<close>

theorem hangup_sends_envelope_only:
  "sent (hangup reason suppressEvent c) =
     sent c @ (if callHasEnded c then []
               else [(''m.call.hangup'',
                      [(''version'', JNum 0), (''call_id'', JStr (callId c)),
                       (''party_id'', JStr (ourPartyId c))])])"
  by (simp add: hangup_def sendVoipEvent_def terminate_sent terminate_callId
      terminate_ourPartyId envelope VOIP_PROTO_VERSION_def Let_def)

theorem hangup_sends_envelope_only_witness:
  "sent (hangup InviteTimeout False (MatrixCall ''!r'' ''D1'' ''c1'')) =
     [(''m.call.hangup'',
       [(''version'', JNum 0), (''call_id'', JStr ''c1''), (''party_id'', JStr ''D1'')])]"
  using hangup_sends_envelope_only [of InviteTimeout False "MatrixCall ''!r'' ''D1'' ''c1''"]
  by (simp add: callHasEnded_def MatrixCall_def)

section \<open>The candidate queue\<close>

lemma push_all_append: "push_all q xs = q @ xs"
  by (induction xs arbitrary: q) simp_all

lemma queueCandidate_queue:
  "candidateSendQueue (queueCandidate x c) = candidateSendQueue c @ [x]"
  by (simp add: queueCandidate_def setTimeout_def Let_def)

lemma queueCandidates_queue:
  "candidateSendQueue (foldl (\<lambda>c x. queueCandidate x c) c xs) = candidateSendQueue c @ xs"
  by (induction xs arbitrary: c) (simp_all add: queueCandidate_queue)

lemma queueCandidates_callId:
  "callId (foldl (\<lambda>c x. queueCandidate x c) c xs) = callId c
   \<and> ourPartyId (foldl (\<lambda>c x. queueCandidate x c) c xs) = ourPartyId c"
  by (induction xs arbitrary: c) (simp_all add: queueCandidate_def setTimeout_def Let_def)

lemma sendCandidateQueue_callId:
  "callId (sendCandidateQueue c) = callId c \<and> ourPartyId (sendCandidateQueue c) = ourPartyId c"
  by (simp add: sendCandidateQueue_def sendVoipEvent_def Let_def)

lemma sendCandidateQueue_failed_queue:
  "candidateSendQueue (sendCandidateQueue_failed cands c) = candidateSendQueue c @ cands"
  by (simp add: sendCandidateQueue_failed_def setTimeout_def push_all_append Let_def)

lemma sendCandidateQueue_takes:
  "candidateSendQueue (sendCandidateQueue c) = []"
  by (simp add: sendCandidateQueue_def sendVoipEvent_def Let_def)

lemma candidates_content:
  "obj_assign [(''candidates'', b)] [(''version'', v), (''call_id'', x), (''party_id'', y)] =
     [(''candidates'', b), (''version'', v), (''call_id'', x), (''party_id'', y)]"
  by (simp add: obj_assign_def)

lemma sendCandidateQueue_sent:
  "candidateSendQueue c \<noteq> [] \<Longrightarrow>
   sent (sendCandidateQueue c) =
     sent c @ [(''m.call.candidates'',
                [(''candidates'', JCands (candidateSendQueue c)), (''version'', JNum 0),
                 (''call_id'', JStr (callId c)), (''party_id'', JStr (ourPartyId c))])]"
  by (simp add: sendCandidateQueue_def sendVoipEvent_def candidates_content
      VOIP_PROTO_VERSION_def Let_def)


lemma callId_sendCandidateQueue_failed [simp]:
  "callId (sendCandidateQueue_failed cands c) = callId c"
  by (simp add: sendCandidateQueue_failed_def setTimeout_def Let_def)

lemma ourPartyId_sendCandidateQueue_failed [simp]:
  "ourPartyId (sendCandidateQueue_failed cands c) = ourPartyId c"
  by (simp add: sendCandidateQueue_failed_def setTimeout_def Let_def)

lemma state_sendCandidateQueue [simp]: "state (sendCandidateQueue c) = state c"
  by (simp add: sendCandidateQueue_def sendVoipEvent_def Let_def)

lemma timers_sendCandidateQueue [simp]: "timers (sendCandidateQueue c) = timers c"
  by (simp add: sendCandidateQueue_def sendVoipEvent_def Let_def)

lemma nextTimer_sendCandidateQueue [simp]: "nextTimer (sendCandidateQueue c) = nextTimer c"
  by (simp add: sendCandidateQueue_def sendVoipEvent_def Let_def)

text \<open>C3, as the code has it. When the send of a flush fails, the failed batch is pushed,
  in its order, onto the \<^emph>\<open>end\<close> of the buffer: a flush of a non-empty buffer \<open>q\<close> empties
  it, and when candidates \<open>xs\<close> are queued while the send is in flight and the send then
  fails, the buffer holds \<open>xs\<close> followed by \<open>q\<close>; the next flush sends all of them, in that
  order. With nothing queued in flight (\<open>xs = []\<close>) that is the order of enqueueing.\<close>

theorem failed_batch_appended:
  "candidateSendQueue (sendCandidateQueue_failed cands c) = candidateSendQueue c @ cands
   \<and> (candidateSendQueue c \<noteq> [] \<longrightarrow>
        candidateSendQueue (sendCandidateQueue c) = []
        \<and> candidateSendQueue
            (sendCandidateQueue_failed (candidateSendQueue c)
               (foldl (\<lambda>c x. queueCandidate x c) (sendCandidateQueue c) xs))
          = xs @ candidateSendQueue c
        \<and> last (sent (sendCandidateQueue
            (sendCandidateQueue_failed (candidateSendQueue c)
               (foldl (\<lambda>c x. queueCandidate x c) (sendCandidateQueue c) xs))))
          = (''m.call.candidates'',
             [(''candidates'', JCands (xs @ candidateSendQueue c)), (''version'', JNum 0),
              (''call_id'', JStr (callId c)), (''party_id'', JStr (ourPartyId c))]))"
proof -
  let ?q = "candidateSendQueue c"
  let ?c2 = "foldl (\<lambda>c x. queueCandidate x c) (sendCandidateQueue c) xs"
  let ?c3 = "sendCandidateQueue_failed ?q ?c2"
  have q3: "candidateSendQueue ?c3 = xs @ ?q"
    by (simp add: sendCandidateQueue_failed_queue queueCandidates_queue
        sendCandidateQueue_takes)
  have "last (sent (sendCandidateQueue ?c3)) =
          (''m.call.candidates'',
           [(''candidates'', JCands (xs @ ?q)), (''version'', JNum 0),
            (''call_id'', JStr (callId c)), (''party_id'', JStr (ourPartyId c))])"
    if "?q \<noteq> []"
  proof -
    from that have "candidateSendQueue ?c3 \<noteq> []" using q3 by simp
    from sendCandidateQueue_sent [OF this] show ?thesis
      by (simp add: q3 queueCandidates_callId sendCandidateQueue_callId)
  qed
  then show ?thesis
    using q3 by (simp add: sendCandidateQueue_failed_queue sendCandidateQueue_takes)
qed

theorem failed_batch_appended_witness:
  "candidateSendQueue queued_call = [cand_a, cand_b]
   \<and> candidateSendQueue
       (sendCandidateQueue_failed [cand_a, cand_b]
          (foldl (\<lambda>c x. queueCandidate x c) (sendCandidateQueue queued_call) [cand_c]))
     = [cand_c, cand_a, cand_b]"
proof -
  have q: "candidateSendQueue queued_call = [cand_a, cand_b]"
    by code_simp
  show ?thesis
    using failed_batch_appended [of "[cand_a, cand_b]" queued_call "[cand_c]"]
    by (simp add: q)
qed

text \<open>C3, as the claim has it, fails: \<open>cand_a\<close> and \<open>cand_b\<close> are queued and flushed,
  \<open>cand_c\<close> is queued while the send is in flight, the send fails. The buffer is then
  \<open>cand_c, cand_a, cand_b\<close>, and that is what the retry sends.\<close>

theorem failed_batch_prepended_counterexample:
  "candidateSendQueue
     (run [TimerFired 1, GotLocalIceCandidate (Some cand_c),
           CandidatesSendFailed [cand_a, cand_b]] queued_call)
     = [cand_c, cand_a, cand_b]
   \<and> [cand_c, cand_a, cand_b] \<noteq> [cand_a, cand_b, cand_c]
   \<and> last (sent
       (run [TimerFired 1, GotLocalIceCandidate (Some cand_c),
             CandidatesSendFailed [cand_a, cand_b], TimerFired 3] queued_call))
     = (''m.call.candidates'',
        [(''candidates'', JCands [cand_c, cand_a, cand_b]), (''version'', JNum 0),
         (''call_id'', JStr ''c1''), (''party_id'', JStr ''D1'')])"
  by code_simp

text \<open>In the rejection callback of a flush, with \<open>candidateSendTries\<close> equal to \<open>n\<close>: for
  \<open>n \<le> 5\<close> the next flush is scheduled after \<open>500 * 2 ^ n\<close> ms and the counter becomes
  \<open>n + 1\<close>; for \<open>n > 5\<close> no flush is scheduled and the counter is reset to \<open>0\<close>. Neither the
  callback nor a flush changes the state of the call.\<close>

lemma sendCandidateQueue_failed_counter:
  "timers (sendCandidateQueue_failed cands c) =
     (if candidateSendTries c > 5 then timers c
      else timers c @ [(nextTimer c, TFlush, 500 * 2 ^ candidateSendTries c)])
   \<and> candidateSendTries (sendCandidateQueue_failed cands c) =
     (if candidateSendTries c > 5 then 0 else Suc (candidateSendTries c))
   \<and> state (sendCandidateQueue_failed cands c) = state c
   \<and> state (sendCandidateQueue c) = state c"
  by (simp add: sendCandidateQueue_failed_def setTimeout_def Let_def)

text \<open>C4 fails on the code. The counter \<open>candidateSendTries\<close> is incremented by the flush and
  again by the rejection callback, so it counts every failed try twice. On a transport
  that fails every send of candidates, the first failed try is followed by a flush after
  1000 ms, the second by one after 4000 ms, which is not \<open>500 * 2 ^ 2\<close> ms, the third by
  one after 16000 ms, and the fourth failed try gives up: no flush is pending, the counter
  is \<open>0\<close> and the candidate stays in the buffer. The call is abandoned after four tries,
  not after more than five. The state of the call is not touched.\<close>

theorem candidate_retry_counts_twice:
  "candidates_sent failed_once = 1
   \<and> pending_flushes failed_once = [(2, TFlush, 1000)]
   \<and> candidates_sent failed_twice = 2
   \<and> pending_flushes failed_twice = [(3, TFlush, 4000)]
   \<and> (4000 :: int) \<noteq> 500 * 2 ^ 2
   \<and> candidates_sent failed_thrice = 3
   \<and> pending_flushes failed_thrice = [(4, TFlush, 16000)]
   \<and> (16000 :: int) \<noteq> 500 * 2 ^ 3
   \<and> candidates_sent failed_four_times = 4
   \<and> pending_flushes failed_four_times = []
   \<and> candidateSendTries failed_four_times = 0
   \<and> candidateSendQueue failed_four_times = [cand_a]
   \<and> state failed_four_times = InviteSent"
  by code_simp

text \<open>Three candidates, two failed sends, then a successful one: the last event carries
  the three candidates in their order and the counter is back at \<open>0\<close>.\<close>

lemma candidate_retry_scenario:
  "last (sent (run [GotLocalIceCandidate (Some cand_c), TimerFired 1,
                    CandidatesSendFailed [cand_a, cand_b, cand_c], TimerFired 4,
                    CandidatesSendFailed [cand_a, cand_b, cand_c], TimerFired 5,
                    CandidatesSent] queued_call))
     = (''m.call.candidates'',
        [(''candidates'', JCands [cand_a, cand_b, cand_c]), (''version'', JNum 0),
         (''call_id'', JStr ''c1''), (''party_id'', JStr ''D1'')])
   \<and> candidateSendTries
       (run [GotLocalIceCandidate (Some cand_c), TimerFired 1,
             CandidatesSendFailed [cand_a, cand_b, cand_c], TimerFired 4,
             CandidatesSendFailed [cand_a, cand_b, cand_c], TimerFired 5,
             CandidatesSent] queued_call) = 0"
  by code_simp

section \<open>The party id filter\<close>

text \<open>Candidates from another party are dropped, and so is an answer once a partner is
  chosen; a hangup from another party is dropped once a partner is chosen, and a hangup
  ends the call while none is chosen.\<close>

lemma candidates_party_filter:
  "\<not> partyIdMatches ev c \<Longrightarrow> onRemoteIceCandidatesReceived ev c = c"
  by (simp add: onRemoteIceCandidatesReceived_def)

lemma answer_party_filter:
  "opponentPartyId c \<noteq> Undefined \<Longrightarrow> onAnswerReceived ev c = c"
  by (simp add: onAnswerReceived_def)

lemma hangup_party_filter:
  "opponentPartyId c \<noteq> Undefined \<Longrightarrow> \<not> partyIdMatches m c \<Longrightarrow> onHangupReceived m c = c"
  by (simp add: onHangupReceived_def)

lemma hangup_unchosen:
  "opponentPartyId c = Undefined \<Longrightarrow> state (onHangupReceived m c) = Ended"
  by (simp add: onHangupReceived_def terminate_state)

text \<open>C1 fails on the code. The ringing call has chosen \<open>D2\<close> as its partner. A
  \<open>negotiate\<close> event from \<open>D9\<close> is not filtered: the call hands the offer of \<open>D9\<close> to its
  peer connection and goes on to answer it. A \<open>select_answer\<close> from \<open>D9\<close> is not filtered
  either: it ends the call.\<close>

theorem negotiate_ignores_party_id:
  "opponentPartyId ringing_call = Str ''D2''
   \<and> \<not> partyIdMatches negotiate_D9 ringing_call
   \<and> map_option pc_log (peerConn ringing_call)
       = Some [PcSetRemoteDescription (Some remote_offer)]
   \<and> map_option pc_log (peerConn (onNegotiateReceived negotiate_D9 ringing_call))
       = Some [PcSetRemoteDescription (Some remote_offer),
               PcSetRemoteDescription (Some \<lparr>sdp = ''v=0 other'', dtype = ''offer''\<rparr>)]
   \<and> map fst (sent (run [NegotiateReceived negotiate_D9,
                          NegotiateRemoteSet \<lparr>sdp = ''v=0 other'', dtype = ''offer''\<rparr> False,
                          NegotiateCreated (Some local_answer),
                          NegotiateLocalSet False] ringing_call))
       = [''m.call.negotiate'']
   \<and> \<not> partyIdMatches select_answer_D9 ringing_call
   \<and> state ringing_call = Ringing
   \<and> state (onSelectAnswerReceived select_answer_D9 ringing_call) = Ended"
  by code_simp

section \<open>The state \<open>Ended\<close>\<close>

text \<open>C2 fails on the code. The call has been answered and the answer is with the
  transport; the partner hangs up, which ends the call; then the send of the answer fails,
  and its \<open>catch\<close> callback puts the call back into \<open>Ringing\<close>.\<close>

theorem ended_not_absorbing:
  "state answering_call = Connecting
   \<and> map fst (sent answering_call) = [''m.call.answer'']
   \<and> state (run [HangupReceived hangup_D2] answering_call) = Ended
   \<and> state (run [HangupReceived hangup_D2, AnswerSendFailed ''Error''] answering_call)
       = Ringing"
  by code_simp

section \<open>The lifetime of an invite\<close>








section \<open>The invite timeout\<close>

lemma inviteTimeout_emit [simp]: "inviteTimeout (emit e c) = inviteTimeout c"
  by (simp add: emit_def)
lemma inviteTimeout_setState [simp]: "inviteTimeout (setState s c) = inviteTimeout c"
  by (simp add: setState_def)
lemma inviteTimeout_setTimeout [simp]: "inviteTimeout (setTimeout k d c) = inviteTimeout c"
  by (simp add: setTimeout_def)
lemma inviteTimeout_sendVoipEvent [simp]: "inviteTimeout (sendVoipEvent t x c) = inviteTimeout c"
  by (simp add: sendVoipEvent_def)
lemma inviteTimeout_on_pc [simp]: "inviteTimeout (on_pc x c) = inviteTimeout c"
  by (simp add: on_pc_def)
lemma inviteTimeout_terminate [simp]:
  "inviteTimeout (terminate p r e c) = (if state c = Ended then inviteTimeout c else None)"
  by (simp add: terminate_defs split: option.splits)
lemma inviteTimeout_hangup [simp]:
  "inviteTimeout (hangup r s c) = (if state c = Ended then inviteTimeout c else None)"
  by (simp add: hangup_def callHasEnded_def Let_def)
lemma inviteTimeout_sendCandidateQueue [simp]:
  "inviteTimeout (sendCandidateQueue c) = inviteTimeout c"
  by (simp add: sendCandidateQueue_def Let_def)
lemma inviteTimeout_queueCandidate [simp]:
  "inviteTimeout (queueCandidate x c) = inviteTimeout c"
  by (simp add: queueCandidate_def Let_def)
lemma inviteTimeout_updateMuteStatus [simp]:
  "inviteTimeout (updateMuteStatus c) = inviteTimeout c"
  by (simp add: updateMuteStatus_def Let_def split: option.splits)
lemma inviteTimeout_add_candidates [simp]:
  "inviteTimeout (add_candidates xs c) = inviteTimeout c"
  by (induction xs arbitrary: c) simp_all
lemma inviteTimeout_gotUserMediaForAnswer [simp]:
  "inviteTimeout (gotUserMediaForAnswer s c) = inviteTimeout c"
  by (simp add: gotUserMediaForAnswer_def Let_def)
lemma inviteTimeout_hold_changed [simp]:
  "inviteTimeout (hold_changed h c) = inviteTimeout c"
  by (simp add: hold_changed_def Let_def)
lemma inviteTimeout_gotLocalOffer_send [simp]:
  "inviteTimeout (gotLocalOffer_send c) = inviteTimeout c"
  by (simp add: gotLocalOffer_send_def Let_def)
lemma inviteTimeout_ringTimeout_fired [simp]:
  "inviteTimeout (ringTimeout_fired c) = inviteTimeout c"
  by (simp add: ringTimeout_fired_def stopAllMedia_def Let_def split: option.splits)
lemma inviteTimeout_inviteTimeout_fired [simp]:
  "inviteTimeout (inviteTimeout_fired c) = None"
  by (simp add: inviteTimeout_fired_def Let_def)













section \<open>Colliding offers\<close>

text \<open>C7. On an outbound call, a \<open>negotiate\<close> event whose description is a well-formed
  offer, arriving while \<open>makingOffer\<close> is set or while the signaling state of the peer
  connection is not \<open>stable\<close> (or there is no peer connection), sets \<open>ignoreOffer\<close> and
  does nothing else: the peer connection is not touched and nothing is sent.\<close>

theorem impolite_ignores_colliding_offer:
  assumes "direction c = Some Outbound"
    and "msg_description ev = Some d" and "sdp d \<noteq> []" and "dtype d = ''offer''"
    and "makingOffer c \<or> map_option signalingState (peerConn c) \<noteq> Some ''stable''"
  shows "onNegotiateReceived ev c = c\<lparr>ignoreOffer := True\<rparr>"
  using assms by (auto simp add: onNegotiateReceived_def Let_def)

theorem impolite_ignores_colliding_offer_witness:
  "direction inviting_call = Some Outbound \<and> makingOffer inviting_call
   \<and> \<not> ignoreOffer inviting_call
   \<and> onNegotiateReceived negotiate_D2 inviting_call = inviting_call\<lparr>ignoreOffer := True\<rparr>"
proof -
  have h: "direction inviting_call = Some Outbound" "makingOffer inviting_call"
    "\<not> ignoreOffer inviting_call" "msg_description negotiate_D2 = Some remote_offer"
    "sdp remote_offer \<noteq> []" "dtype remote_offer = ''offer''"
    by code_simp+
  show ?thesis
    using impolite_ignores_colliding_offer [of inviting_call negotiate_D2 remote_offer] h
    by simp
qed

text \<open>An event without a well-formed description is ignored altogether.\<close>

lemma negotiate_invalid_ignored:
  "msg_description ev = None \<or> msg_description ev = Some d \<and> (sdp d = [] \<or> dtype d = [])
   \<Longrightarrow> onNegotiateReceived ev c = c"
  by (auto simp add: onNegotiateReceived_def)

section \<open>Inbound candidates\<close>

lemma add_candidates_stops:
  "sdpMid x = None \<Longrightarrow> sdpMLineIndex x = None \<Longrightarrow> add_candidates (x # xs) c = c"
  by simp

lemma add_candidates_all:
  "list_all (\<lambda>x. sdpMid x \<noteq> None \<or> sdpMLineIndex x \<noteq> None) xs \<Longrightarrow>
     add_candidates xs c = foldl (\<lambda>c x. on_pc (PcAddIceCandidate x) c) c xs"
  by (induction xs arbitrary: c) auto

text \<open>C8 fails on the code. The ringing call receives, from its partner, a candidate
  without \<open>sdpMid\<close> and \<open>sdpMLineIndex\<close> followed by a complete one: the loop returns at the
  first, and the second is not added. Alone, the second is added.\<close>

theorem dropped_candidate_ends_batch:
  "\<not> callHasEnded ringing_call
   \<and> partyIdMatches (candidates_D2 [cand_bare, cand_a]) ringing_call
   \<and> onRemoteIceCandidatesReceived (candidates_D2 [cand_bare, cand_a]) ringing_call
       = ringing_call
   \<and> map_option pc_log (peerConn (onRemoteIceCandidatesReceived (candidates_D2 [cand_a])
        ringing_call))
       = Some [PcSetRemoteDescription (Some remote_offer), PcAddIceCandidate cand_a]"
  by code_simp

end
